theory Spec2Isabelle
  imports Main
begin

section \<open>Values, exceptions and the external collaborators\<close>

text \<open>
  The RPC manager of \<^verbatim>\<open>ryu/services/protocols/vrrp/rpc_manager.py\<close> works on the
  values that the message decoder hands over: null, booleans, integers, strings, arrays
  and maps. A map is kept as the list of its items, in iteration order; the keys of a
  Python dict are pairwise different. Floating point numbers are left out.
\<close>

datatype pyval =
    PNone
  | PBool bool
  | PInt int
  | PStr string
  | PList "pyval list"
  | PDict "(pyval \<times> pyval) list"

text \<open>
  The exceptions that occur: \<open>RPCError\<close> is the class of the module, the next four are
  raised by Python itself, and \<open>ExternalError\<close> stands for whatever a collaborator
  (constructor, address library, instance registry, socket) raises.
\<close>

datatype exn =
    RPCError string
  | IndexError
  | KeyError
  | TypeError
  | AttributeError
  | ExternalError string

text \<open>
  Modelled from the spec: the classes \<open>VRRPConfig\<close> and \<open>VRRPInterfaceNetworkDevice\<close>,
  the instance handles and the state-change event belong to \<^verbatim>\<open>vrrp.event\<close>, whose
  declarations are missing. The records hold the attributes the module reads or writes.
  The virtual-router id is an integer and an instance name is a string, as the data
  model of the spec has them; the other attributes are decoded values.
\<close>

record interface =
  mac_address :: pyval
  primary_ip_address :: pyval
  vlan_id :: pyval
  device_name :: pyval

record vrrp_config =
  version :: pyval
  vrid :: int
  priority :: pyval
  ip_addresses :: "pyval list"
  advertisement_interval :: pyval
  contexts :: pyval

record "instance" =
  instance_name :: string
  config :: vrrp_config

record state_changed =
  ev_instance_name :: string
  old_state :: pyval
  new_state :: pyval
  ev_config :: vrrp_config

type_synonym peer = nat

datatype frame =
    Response pyval pyval pyval
  | Notification string pyval

datatype api_call =
    CallConfig interface vrrp_config
  | CallList
  | CallShutdown string
  | CallConfigChange string pyval pyval

type_synonym kwargs = "pyval \<rightharpoonup> pyval"

text \<open>
  Everything the module calls but does not define is a field of the environment: the
  two configuration values, \<open>str\<close> on a decoded value, the two constructors, the
  canonical form \<open>str(netaddr.IPAddress(x))\<close>, the four operations of \<^verbatim>\<open>vrrp.api\<close> on
  a registry of type \<open>'w\<close>, and the two send operations of an endpoint, which yield the
  exception they raise, if any.
\<close>

record 'w env =
  vrrp_use_vmac :: bool
  DONTCARE_STR :: string
  py_str :: "pyval \<Rightarrow> string"
  VRRPInterfaceNetworkDevice :: "kwargs \<Rightarrow> exn + interface"
  VRRPConfig :: "kwargs \<Rightarrow> exn + vrrp_config"
  IPAddress_str :: "pyval \<Rightarrow> exn + string"
  vrrp_api_config :: "'w \<Rightarrow> interface \<Rightarrow> vrrp_config \<Rightarrow> exn + (instance \<times> 'w)"
  vrrp_api_list :: "'w \<Rightarrow> instance list"
  vrrp_api_shutdown :: "'w \<Rightarrow> string \<Rightarrow> 'w"
  vrrp_api_config_change :: "'w \<Rightarrow> string \<Rightarrow> pyval \<Rightarrow> pyval \<Rightarrow> 'w"
  send_response :: "peer \<Rightarrow> pyval \<Rightarrow> pyval \<Rightarrow> pyval \<Rightarrow> exn option"
  send_notification :: "peer \<Rightarrow> string \<Rightarrow> pyval \<Rightarrow> exn option"

text \<open>
  The manager: the peer list \<open>self._peers\<close>, the registry behind \<^verbatim>\<open>vrrp.api\<close>, and two
  logs that record what the manager did to the outside: the calls into the registry and
  the frames that were sent. The calls of the logger \<open>self.log\<close> are left out.
\<close>

record 'w manager =
  peers :: "peer list"
  registry :: 'w
  api_calls :: "api_call list"
  sent :: "(peer \<times> frame) list"

section \<open>Python operations on decoded values\<close>

fun lookup_zero :: "(pyval \<times> pyval) list \<Rightarrow> pyval option" where
  "lookup_zero [] = None"
| "lookup_zero ((k, v) # kvs) =
     (if k = PInt 0 \<or> k = PBool False then Some v else lookup_zero kvs)"

text \<open>\<open>x[0]\<close>: the first element of an array or string, the entry for key 0 of a map.\<close>

fun getitem0 :: "pyval \<Rightarrow> exn + pyval" where
  "getitem0 (PList []) = Inl IndexError"
| "getitem0 (PList (x # xs)) = Inr x"
| "getitem0 (PStr []) = Inl IndexError"
| "getitem0 (PStr (c # cs)) = Inr (PStr [c])"
| "getitem0 (PDict kvs) = (case lookup_zero kvs of None \<Rightarrow> Inl KeyError | Some v \<Rightarrow> Inr v)"
| "getitem0 PNone = Inl TypeError"
| "getitem0 (PBool b) = Inl TypeError"
| "getitem0 (PInt n) = Inl TypeError"

text \<open>\<open>x.items()\<close> and \<open>x.get(k)\<close> exist on maps only.\<close>

fun py_items :: "pyval \<Rightarrow> exn + (pyval \<times> pyval) list" where
  "py_items (PDict kvs) = Inr kvs"
| "py_items other = Inl AttributeError"

fun py_get :: "pyval \<Rightarrow> pyval \<Rightarrow> exn + pyval" where
  "py_get (PDict kvs) k = Inr (case map_of kvs k of None \<Rightarrow> PNone | Some v \<Rightarrow> v)"
| "py_get other k = Inl AttributeError"

text \<open>Decimal digits, for \<open>%d\<close>.\<close>

fun show_nat :: "nat \<Rightarrow> string" where
  "show_nat n =
     (if n < 10 then [''0123456789'' ! n]
      else show_nat (n div 10) @ [''0123456789'' ! (n mod 10)])"

declare show_nat.simps [simp del]

definition show_int :: "int \<Rightarrow> string" where
  "show_int i = (if i < 0 then CHR ''-'' # show_nat (nat (- i)) else show_nat (nat i))"

text \<open>\<open>'%d' % x\<close>: a number is required.\<close>

fun fmt_d :: "pyval \<Rightarrow> exn + string" where
  "fmt_d (PInt n) = Inr (show_int n)"
| "fmt_d (PBool b) = Inr (if b then ''1'' else ''0'')"
| "fmt_d other = Inl TypeError"

text \<open>\<open>x == n\<close> for an integer \<open>n\<close>: booleans are the integers 1 and 0.\<close>

fun py_eq_int :: "pyval \<Rightarrow> int \<Rightarrow> bool" where
  "py_eq_int (PInt m) n = (m = n)"
| "py_eq_int (PBool b) n = ((if b then 1 else 0) = n)"
| "py_eq_int other n = False"

section \<open>The command handlers\<close>

text \<open>
  \<open>_params_to_dict\<close>: the entries of \<open>params\<close> whose key is one of \<open>keys\<close>, collected
  into a fresh dict by the loop over \<open>params.items()\<close>.
\<close>

fun params_loop :: "(pyval \<times> pyval) list \<Rightarrow> pyval list \<Rightarrow> kwargs \<Rightarrow> kwargs" where
  "params_loop [] keys d = d"
| "params_loop ((k, v) # kvs) keys d =
     params_loop kvs keys (if k \<in> set keys then d(k \<mapsto> v) else d)"

definition params_to_dict :: "pyval \<Rightarrow> pyval list \<Rightarrow> exn + kwargs" where
  "params_to_dict params keys =
     (case py_items params of
        Inl e \<Rightarrow> Inl e
      | Inr kvs \<Rightarrow> Inr (params_loop kvs keys Map.empty))"

definition if_keys :: "pyval list" where
  "if_keys = [PStr ''ip_address'', PStr ''ifname'']"

definition config_keys :: "pyval list" where
  "config_keys =
     [PStr ''vrid'', PStr ''ip_addr'', PStr ''version'', PStr ''admin_state'',
      PStr ''priority'', PStr ''advertisement_interval'', PStr ''preempt_mode'',
      PStr ''preempt_delay'', PStr ''statistics_interval'']"

text \<open>
  Lines 120 to 133 of \<open>_config\<close>: the keyword arguments of the interface descriptor.
  A \<open>pop\<close> of an absent key is caught by the bare \<open>except\<close> and raised again as
  \<open>RPCError\<close>; \<open>_params_to_dict\<close> is called outside of the \<open>try\<close> statements.
\<close>

definition interface_kwargs :: "'w env \<Rightarrow> pyval \<Rightarrow> exn + kwargs" where
  "interface_kwargs env param_dict =
     (case params_to_dict param_dict if_keys of
        Inl e \<Rightarrow> Inl e
      | Inr if_params \<Rightarrow>
     (case if_params (PStr ''ip_address'') of
        None \<Rightarrow> Inl (RPCError ''ip_addr parameter is missing'')
      | Some ip \<Rightarrow>
     (let if_params1 = (if_params(PStr ''ip_address'' := None))(PStr ''primary_ip_address'' \<mapsto> ip)
      in
     (case if_params1 (PStr ''ifname'') of
        None \<Rightarrow> Inl (RPCError ''ifname parameter is missing'')
      | Some ifname \<Rightarrow>
     (let if_params2 = (if_params1(PStr ''ifname'' := None))(PStr ''device_name'' \<mapsto> ifname);
          if_params3 = if_params2(PStr ''vlan_id'' \<mapsto> PNone);
          if_params4 = if_params3(PStr ''mac_address'' \<mapsto> PStr (DONTCARE_STR env))
      in Inr if_params4)))))"

text \<open>Lines 134 to 137: a constructor that raises gives the invalid-parameters error.\<close>

definition build_interface :: "'w env \<Rightarrow> pyval \<Rightarrow> exn + interface" where
  "build_interface env param_dict =
     (case interface_kwargs env param_dict of
        Inl e \<Rightarrow> Inl e
      | Inr if_params \<Rightarrow>
     (case VRRPInterfaceNetworkDevice env if_params of
        Inl e \<Rightarrow> Inl (RPCError (''parameters are invalid, '' @ py_str env param_dict))
      | Inr iface \<Rightarrow> Inr iface))"

text \<open>Lines 139 to 154: the keyword arguments of the configuration object.\<close>

definition config_kwargs :: "'w env \<Rightarrow> pyval \<Rightarrow> exn + kwargs" where
  "config_kwargs env param_dict =
     (case params_to_dict param_dict config_keys of
        Inl e \<Rightarrow> Inl e
      | Inr config_params \<Rightarrow>
     (let config_params1 =
            (if vrrp_use_vmac env then config_params(PStr ''use_virtual_mac'' \<mapsto> PBool True)
             else config_params)
      in
     (case config_params1 (PStr ''ip_addr'') of
        None \<Rightarrow> Inl (RPCError ''ip_addr parameter is missing'')
      | Some ip \<Rightarrow>
          Inr ((config_params1(PStr ''ip_addr'' := None))(PStr ''ip_addresses'' \<mapsto> PList [ip])))))"

text \<open>Lines 155 to 159: the configuration object, with \<open>contexts\<close> set afterwards.\<close>

definition build_config :: "'w env \<Rightarrow> pyval \<Rightarrow> exn + vrrp_config" where
  "build_config env param_dict =
     (case config_kwargs env param_dict of
        Inl e \<Rightarrow> Inl e
      | Inr config_params \<Rightarrow>
     (case VRRPConfig env config_params of
        Inl e \<Rightarrow> Inl (RPCError (''parameters are invalid, '' @ py_str env param_dict))
      | Inr cfg \<Rightarrow>
     (case py_get param_dict (PStr ''contexts'') of
        Inl e \<Rightarrow> Inl e
      | Inr c \<Rightarrow> Inr (cfg\<lparr>contexts := c\<rparr>))))"

text \<open>\<open>str(netaddr.IPAddress(c.ip_addresses[0]))\<close> for a configuration \<open>c\<close>.\<close>

definition primary_str :: "'w env \<Rightarrow> vrrp_config \<Rightarrow> exn + string" where
  "primary_str env c =
     (case ip_addresses c of
        [] \<Rightarrow> Inl IndexError
      | a # rest \<Rightarrow> IPAddress_str env a)"

text \<open>
  \<open>_config\<close>. A handler yields the value it returns or the exception it raises, and the
  manager as the handler left it.
\<close>

definition rpc_config ::
  "'w env \<Rightarrow> 'w manager \<Rightarrow> pyval \<Rightarrow> pyval \<Rightarrow> (exn + pyval) \<times> 'w manager" where
  "rpc_config env s msgid params =
     (case getitem0 params of
        Inl e \<Rightarrow> (Inl (RPCError ''parameters are missing''), s)
      | Inr param_dict \<Rightarrow>
     (case build_interface env param_dict of
        Inl e \<Rightarrow> (Inl e, s)
      | Inr iface \<Rightarrow>
     (case build_config env param_dict of
        Inl e \<Rightarrow> (Inl e, s)
      | Inr cfg \<Rightarrow>
     (let s1 = s\<lparr>api_calls := api_calls s @ [CallConfig iface cfg]\<rparr> in
     (case vrrp_api_config env (registry s) iface cfg of
        Inl e \<Rightarrow> (Inl e, s1)
      | Inr (config_result, w) \<Rightarrow>
     (let s2 = s1\<lparr>registry := w\<rparr> in
     (case primary_str env (config config_result) of
        Inl e \<Rightarrow> (Inl e, s2)
      | Inr a \<Rightarrow>
          (Inr (PList [PInt (vrid (config config_result)),
                       priority (config config_result),
                       PStr a]), s2))))))))"

text \<open>
  \<open>_lookup_instance\<close>: the name of the first instance of the reported list with the
  given virtual-router id, \<open>None\<close> when the loop ends without one.
\<close>

fun lookup_loop :: "instance list \<Rightarrow> pyval \<Rightarrow> string option" where
  "lookup_loop [] v = None"
| "lookup_loop (i # rest) v =
     (if py_eq_int v (vrid (config i)) then Some (instance_name i) else lookup_loop rest v)"

definition lookup_instance ::
  "'w env \<Rightarrow> 'w manager \<Rightarrow> pyval \<Rightarrow> string option \<times> 'w manager" where
  "lookup_instance env s v =
     (lookup_loop (vrrp_api_list env (registry s)) v,
      s\<lparr>api_calls := api_calls s @ [CallList]\<rparr>)"

text \<open>\<open>raise RPCError('vrid %d is not found' % (vrid))\<close>: the formatting comes first.\<close>

definition not_found :: "pyval \<Rightarrow> exn" where
  "not_found v =
     (case fmt_d v of
        Inl e \<Rightarrow> e
      | Inr d \<Rightarrow> RPCError (''vrid '' @ d @ '' is not found''))"

text \<open>
  \<open>_shutdown\<close>. The test \<open>not instance_name\<close> holds of \<open>None\<close> and of the empty
  string.
\<close>

definition rpc_shutdown ::
  "'w env \<Rightarrow> 'w manager \<Rightarrow> pyval \<Rightarrow> pyval \<Rightarrow> (exn + pyval) \<times> 'w manager" where
  "rpc_shutdown env s msgid params =
     (case getitem0 params of
        Inl e \<Rightarrow> (Inl (RPCError ''parameters are missing''), s)
      | Inr config_values \<Rightarrow>
     (case py_get config_values (PStr ''vrid'') of
        Inl e \<Rightarrow> (Inl e, s)
      | Inr v \<Rightarrow>
     (case lookup_instance env s v of
        (None, s1) \<Rightarrow> (Inl (not_found v), s1)
      | (Some name, s1) \<Rightarrow>
          if name = [] then (Inl (not_found v), s1)
          else (Inr (PList [PDict []]),
                s1\<lparr>registry := vrrp_api_shutdown env (registry s1) name,
                   api_calls := api_calls s1 @ [CallShutdown name]\<rparr>))))"

text \<open>\<open>_config_change\<close>.\<close>

definition rpc_config_change ::
  "'w env \<Rightarrow> 'w manager \<Rightarrow> pyval \<Rightarrow> pyval \<Rightarrow> (exn + pyval) \<times> 'w manager" where
  "rpc_config_change env s msgid params =
     (case getitem0 params of
        Inl e \<Rightarrow> (Inl (RPCError ''parameters are missing''), s)
      | Inr config_values \<Rightarrow>
     (case py_get config_values (PStr ''vrid'') of
        Inl e \<Rightarrow> (Inl e, s)
      | Inr v \<Rightarrow>
     (case lookup_instance env s v of
        (None, s1) \<Rightarrow> (Inl (not_found v), s1)
      | (Some name, s1) \<Rightarrow>
          if name = [] then (Inl (not_found v), s1)
          else
     (case py_get config_values (PStr ''priority'') of
        Inl e \<Rightarrow> (Inl e, s1)
      | Inr prio \<Rightarrow>
     (case py_get config_values (PStr ''advertisement_interval'') of
        Inl e \<Rightarrow> (Inl e, s1)
      | Inr interval \<Rightarrow>
          (Inr (PDict []),
           s1\<lparr>registry := vrrp_api_config_change env (registry s1) name prio interval,
              api_calls := api_calls s1 @ [CallConfigChange name prio interval]\<rparr>))))))"

text \<open>\<open>_list\<close>: one \<open>info_dict\<close> per instance, appended to \<open>ret_list\<close>.\<close>

definition info_dict :: "instance \<Rightarrow> string \<Rightarrow> pyval" where
  "info_dict i a =
     PDict [(PStr ''instance_name'', PStr (instance_name i)),
            (PStr ''vrid'', PInt (vrid (config i))),
            (PStr ''version'', version (config i)),
            (PStr ''advertisement_interval'', advertisement_interval (config i)),
            (PStr ''priority'', priority (config i)),
            (PStr ''virtual_ip_address'', PStr a)]"

fun list_loop :: "'w env \<Rightarrow> instance list \<Rightarrow> pyval list \<Rightarrow> exn + pyval list" where
  "list_loop env [] ret_list = Inr ret_list"
| "list_loop env (i # rest) ret_list =
     (case primary_str env (config i) of
        Inl e \<Rightarrow> Inl e
      | Inr a \<Rightarrow> list_loop env rest (ret_list @ [info_dict i a]))"

definition rpc_list ::
  "'w env \<Rightarrow> 'w manager \<Rightarrow> pyval \<Rightarrow> pyval \<Rightarrow> (exn + pyval) \<times> 'w manager" where
  "rpc_list env s msgid params =
     (let s1 = s\<lparr>api_calls := api_calls s @ [CallList]\<rparr> in
     (case list_loop env (vrrp_api_list env (registry s)) [] of
        Inl e \<Rightarrow> (Inl e, s1)
      | Inr ret_list \<Rightarrow> (Inr (PList ret_list), s1)))"

section \<open>The dispatcher and the broadcaster\<close>

text \<open>
  The \<open>try\<close> statement of \<open>_rpc_request_loop_thread\<close>: \<open>except RPCError\<close> turns an
  \<open>RPCError\<close> of a handler into the error string, any other exception leaves the
  statement. The value is the pair of \<open>error\<close> and \<open>result\<close>.
\<close>

fun catch_rpc :: "(exn + pyval) \<times> 'w manager \<Rightarrow> (exn + pyval \<times> pyval) \<times> 'w manager" where
  "catch_rpc (Inr v, s) = (Inr (PNone, v), s)"
| "catch_rpc (Inl (RPCError m), s) = (Inr (PStr m, PNone), s)"
| "catch_rpc (Inl e, s) = (Inl e, s)"

definition handle_request ::
  "'w env \<Rightarrow> 'w manager \<Rightarrow> pyval \<Rightarrow> string \<Rightarrow> pyval \<Rightarrow> (exn + pyval \<times> pyval) \<times> 'w manager"
  where
  "handle_request env s msgid target_method params =
     (if target_method = ''vrrp_config'' then catch_rpc (rpc_config env s msgid params)
      else if target_method = ''vrrp_list'' then catch_rpc (rpc_list env s msgid params)
      else if target_method = ''vrrp_config_change''
        then catch_rpc (rpc_config_change env s msgid params)
      else if target_method = ''vrrp_shutdown'' then catch_rpc (rpc_shutdown env s msgid params)
      else (Inr (PStr (''Unknown method '' @ target_method), PNone), s))"

text \<open>
  A command is the tuple the peer put on the queue. One round of the loop handles it and
  sends the response; the value is the exception that leaves the round, if any.
\<close>

type_synonym command = "peer \<times> pyval \<times> string \<times> pyval"

fun rpc_request_step :: "'w env \<Rightarrow> 'w manager \<Rightarrow> command \<Rightarrow> exn option \<times> 'w manager" where
  "rpc_request_step env s (p, msgid, target_method, params) =
     (case handle_request env s msgid target_method params of
        (Inl e, s1) \<Rightarrow> (Some e, s1)
      | (Inr (error, result), s1) \<Rightarrow>
     (case send_response env p msgid error result of
        Some e \<Rightarrow> (Some e, s1)
      | None \<Rightarrow> (None, s1\<lparr>sent := sent s1 @ [(p, Response msgid error result)]\<rparr>)))"

text \<open>
  \<open>_rpc_request_loop_thread\<close> on the commands that arrive on the queue: an exception
  that leaves a round ends the thread, and the commands behind it stay unanswered.
\<close>

fun rpc_request_loop_thread ::
  "'w env \<Rightarrow> 'w manager \<Rightarrow> command list \<Rightarrow> exn option \<times> 'w manager" where
  "rpc_request_loop_thread env s [] = (None, s)"
| "rpc_request_loop_thread env s (c # queue) =
     (case rpc_request_step env s c of
        (Some e, s1) \<Rightarrow> (Some e, s1)
      | (None, s1) \<Rightarrow> rpc_request_loop_thread env s1 queue)"

text \<open>\<open>vrrp_state_changed_handler\<close>: the payload, and the loop over \<open>self._peers\<close>.\<close>

definition notify_params :: "state_changed \<Rightarrow> pyval" where
  "notify_params ev =
     PDict [(PStr ''vrid'', PInt (vrid (ev_config ev))),
            (PStr ''old_state'', old_state ev),
            (PStr ''new_state'', new_state ev)]"

fun notify_loop ::
  "'w env \<Rightarrow> peer list \<Rightarrow> pyval \<Rightarrow> 'w manager \<Rightarrow> exn option \<times> 'w manager" where
  "notify_loop env [] params s = (None, s)"
| "notify_loop env (p # ps) params s =
     (case send_notification env p ''notify_status'' (PList [params]) of
        Some e \<Rightarrow> (Some e, s)
      | None \<Rightarrow>
          notify_loop env ps params
            (s\<lparr>sent := sent s @ [(p, Notification ''notify_status'' (PList [params]))]\<rparr>))"

definition vrrp_state_changed_handler ::
  "'w env \<Rightarrow> 'w manager \<Rightarrow> state_changed \<Rightarrow> exn option \<times> 'w manager" where
  "vrrp_state_changed_handler env s ev = notify_loop env (peers s) (notify_params ev) s"

section \<open>The parameters \<open>_config\<close> reads\<close>

text \<open>
  The keys that \<open>_config\<close> names: the two interface keys, the nine configuration keys
  and \<open>contexts\<close>; and a parameter object cut down to the entries with these keys.
\<close>

definition recognized_keys :: "pyval list" where
  "recognized_keys = if_keys @ config_keys @ [PStr ''contexts'']"

definition known_params :: "(pyval \<times> pyval) list \<Rightarrow> (pyval \<times> pyval) list" where
  "known_params d = filter (\<lambda>kv. fst kv \<in> set recognized_keys) d"

text \<open>The values without content: null, the empty string, the empty array, the empty map.\<close>

definition empty_value :: "pyval \<Rightarrow> bool" where
  "empty_value r = (r = PNone \<or> r = PStr [] \<or> r = PList [] \<or> r = PDict [])"

section \<open>A sample environment\<close>

text \<open>
  A small environment on which the handlers can be run: the registry is the list of its
  instances, the constructors read their keyword arguments, an address is canonical
  when it is a string, and the socket of peer 2 is broken.
\<close>

definition sample_interface :: "kwargs \<Rightarrow> exn + interface" where
  "sample_interface kw =
     (case (kw (PStr ''mac_address''), kw (PStr ''primary_ip_address''),
            kw (PStr ''vlan_id''), kw (PStr ''device_name'')) of
        (Some m, Some a, Some v, Some d) \<Rightarrow>
          Inr \<lparr>mac_address = m, primary_ip_address = a, vlan_id = v, device_name = d\<rparr>
      | other \<Rightarrow> Inl (ExternalError ''TypeError''))"

definition kw_default :: "kwargs \<Rightarrow> string \<Rightarrow> pyval \<Rightarrow> pyval" where
  "kw_default kw k dflt = (case kw (PStr k) of None \<Rightarrow> dflt | Some v \<Rightarrow> v)"

definition sample_config :: "kwargs \<Rightarrow> exn + vrrp_config" where
  "sample_config kw =
     (case (kw (PStr ''vrid''), kw (PStr ''ip_addresses'')) of
        (Some (PInt v), Some (PList addrs)) \<Rightarrow>
          Inr \<lparr>version = kw_default kw ''version'' (PInt 3),
               vrid = v,
               priority = kw_default kw ''priority'' (PInt 100),
               ip_addresses = addrs,
               advertisement_interval = kw_default kw ''advertisement_interval'' (PInt 1),
               contexts = PNone\<rparr>
      | other \<Rightarrow> Inl (ExternalError ''AssertionError''))"

definition sample_address :: "pyval \<Rightarrow> exn + string" where
  "sample_address a =
     (case a of PStr str \<Rightarrow> Inr str | other \<Rightarrow> Inl (ExternalError ''AddrFormatError''))"

definition sample_create ::
  "instance list \<Rightarrow> interface \<Rightarrow> vrrp_config \<Rightarrow> exn + (instance \<times> instance list)" where
  "sample_create w iface cfg =
     (let i = \<lparr>instance_name = ''VRRP-Router-'' @ show_int (vrid cfg), config = cfg\<rparr>
      in Inr (i, w @ [i]))"

definition sample_change :: "instance list \<Rightarrow> string \<Rightarrow> pyval \<Rightarrow> pyval \<Rightarrow> instance list" where
  "sample_change w name prio interval =
     map (\<lambda>i. if instance_name i = name \<and> prio \<noteq> PNone
               then i\<lparr>config := (config i)\<lparr>priority := prio\<rparr>\<rparr> else i) w"

definition sample_env :: "instance list env" where
  "sample_env =
     \<lparr>vrrp_use_vmac = False,
      DONTCARE_STR = ''00:00:00:00:00:00'',
      py_str = (\<lambda>v. ''{...}''),
      VRRPInterfaceNetworkDevice = sample_interface,
      VRRPConfig = sample_config,
      IPAddress_str = sample_address,
      vrrp_api_config = sample_create,
      vrrp_api_list = (\<lambda>w. w),
      vrrp_api_shutdown = (\<lambda>w name. filter (\<lambda>i. instance_name i \<noteq> name) w),
      vrrp_api_config_change = sample_change,
      send_response = (\<lambda>p msgid error result. None),
      send_notification =
        (\<lambda>p method params. if p = 2 then Some (ExternalError ''socket.error'') else None)\<rparr>"

definition sample_instance :: "string \<Rightarrow> int \<Rightarrow> string \<Rightarrow> instance" where
  "sample_instance name v addr =
     \<lparr>instance_name = name,
      config = \<lparr>version = PInt 3, vrid = v, priority = PInt 100,
                ip_addresses = [PStr addr], advertisement_interval = PInt 1,
                contexts = PNone\<rparr>\<rparr>"

definition sample_manager :: "instance list \<Rightarrow> instance list manager" where
  "sample_manager w = \<lparr>peers = [1, 2, 3], registry = w, api_calls = [], sent = []\<rparr>"

section \<open>Facts about the loops\<close>

lemma lookup_loop_PNone: "lookup_loop il PNone = None"
  by (induction il) simp_all

lemma lookup_loop_PStr: "lookup_loop il (PStr x) = None"
  by (induction il) simp_all

lemma lookup_loop_no_match:
  "list_all (\<lambda>i. vrid (config i) \<noteq> n) il \<Longrightarrow> lookup_loop il (PInt n) = None"
  by (induction il) auto

lemma params_loop_apply:
  "params_loop kvs keys d k =
     (if k \<in> set keys
      then (case map_of (rev kvs) k of None \<Rightarrow> d k | Some v \<Rightarrow> Some v)
      else d k)"
proof (induction kvs arbitrary: d)
  case Nil
  then show ?case by simp
next
  case (Cons kv kvs)
  obtain k' v' where kv: "kv = (k', v')" by (cases kv)
  show ?case
    unfolding kv by (simp add: Cons.IH map_add_def split: option.splits)
qed

lemma params_loop_absent:
  "k \<notin> fst ` set kvs \<Longrightarrow> params_loop kvs keys Map.empty k = None"
  by (simp add: params_loop_apply map_of_eq_None_iff [THEN iffD2])

lemma params_loop_present:
  "k \<in> fst ` set kvs \<Longrightarrow> k \<in> set keys \<Longrightarrow> \<exists>v. params_loop kvs keys Map.empty k = Some v"
proof -
  assume a: "k \<in> fst ` set kvs" and b: "k \<in> set keys"
  from a have "map_of (rev kvs) k \<noteq> None"
    by (simp add: map_of_eq_None_iff)
  with b show ?thesis
    by (auto simp: params_loop_apply split: option.splits)
qed

lemma build_interface_no_ip:
  "PStr ''ip_address'' \<notin> fst ` set d \<Longrightarrow>
   build_interface env (PDict d) = Inl (RPCError ''ip_addr parameter is missing'')"
  by (simp add: build_interface_def interface_kwargs_def params_to_dict_def params_loop_absent)

lemma build_interface_no_ifname:
  assumes "PStr ''ip_address'' \<in> fst ` set d" and "PStr ''ifname'' \<notin> fst ` set d"
  shows "build_interface env (PDict d) = Inl (RPCError ''ifname parameter is missing'')"
proof -
  obtain ip where "params_loop d if_keys Map.empty (PStr ''ip_address'') = Some ip"
    using params_loop_present [OF assms(1), of if_keys] by (auto simp: if_keys_def)
  moreover have "params_loop d if_keys Map.empty (PStr ''ifname'') = None"
    using assms(2) by (rule params_loop_absent)
  ultimately show ?thesis
    by (simp add: build_interface_def interface_kwargs_def params_to_dict_def)
qed

lemma lookup_loop_first:
  "list_all (\<lambda>j. vrid (config j) \<noteq> v) pre \<Longrightarrow> vrid (config i) = v \<Longrightarrow>
   lookup_loop (pre @ i # post) (PInt v) = Some (instance_name i)"
  by (induction pre) auto

lemma primary_str_hd:
  "ip_addresses c \<noteq> [] \<Longrightarrow> primary_str env c = IPAddress_str env (hd (ip_addresses c))"
  by (cases "ip_addresses c") (simp_all add: primary_str_def)

lemma list_loop_map:
  "list_all (\<lambda>i. primary_str env (config i) = Inr (canon i)) il \<Longrightarrow>
   list_loop env il ret_list = Inr (ret_list @ map (\<lambda>i. info_dict i (canon i)) il)"
  by (induction il arbitrary: ret_list) simp_all

lemma notify_loop_prefix:
  "notify_loop env ps params s =
     ((case dropWhile (\<lambda>p. send_notification env p ''notify_status'' (PList [params]) = None) ps of
         [] \<Rightarrow> None
       | p # rest \<Rightarrow> send_notification env p ''notify_status'' (PList [params])),
      s\<lparr>sent := sent s @
           map (\<lambda>p. (p, Notification ''notify_status'' (PList [params])))
             (takeWhile (\<lambda>p. send_notification env p ''notify_status'' (PList [params]) = None) ps)\<rparr>)"
  by (induction ps arbitrary: s) (auto split: option.splits)

section \<open>Facts about the parameters \<open>_config\<close> reads\<close>

lemma params_loop_filter:
  "set keys \<subseteq> set ks \<Longrightarrow>
   params_loop (filter (\<lambda>kv. fst kv \<in> set ks) kvs) keys m = params_loop kvs keys m"
proof (induction kvs arbitrary: m)
  case Nil
  then show ?case by simp
next
  case (Cons kv kvs)
  obtain k v where kv: "kv = (k, v)" by (cases kv)
  from Cons show ?case unfolding kv by auto
qed

lemma map_of_filter_keys:
  "k \<in> set ks \<Longrightarrow> map_of (filter (\<lambda>kv. fst kv \<in> set ks) kvs) k = map_of kvs k"
  by (induction kvs) auto

lemma params_to_dict_known:
  "set keys \<subseteq> set recognized_keys \<Longrightarrow>
   params_to_dict (PDict (known_params d)) keys = params_to_dict (PDict d) keys"
  by (simp add: params_to_dict_def known_params_def params_loop_filter)

lemma if_keys_recognized: "set if_keys \<subseteq> set recognized_keys"
  by (auto simp: recognized_keys_def)

lemma config_keys_recognized: "set config_keys \<subseteq> set recognized_keys"
  by (auto simp: recognized_keys_def)

lemma contexts_recognized: "PStr ''contexts'' \<in> set recognized_keys"
  by (simp add: recognized_keys_def)

lemma interface_kwargs_known:
  "interface_kwargs env (PDict (known_params d)) = interface_kwargs env (PDict d)"
  by (simp add: interface_kwargs_def params_to_dict_known [OF if_keys_recognized])

lemma config_kwargs_known:
  "config_kwargs env (PDict (known_params d)) = config_kwargs env (PDict d)"
  by (simp add: config_kwargs_def params_to_dict_known [OF config_keys_recognized])

lemma contexts_known:
  "py_get (PDict (known_params d)) (PStr ''contexts'') = py_get (PDict d) (PStr ''contexts'')"
  by (simp add: known_params_def map_of_filter_keys [OF contexts_recognized])

lemma params_loop_dom: "params_loop kvs keys Map.empty k = Some v \<Longrightarrow> k \<in> set keys"
  by (simp add: params_loop_apply split: if_splits)

lemma interface_kwargs_dom:
  assumes "interface_kwargs env (PDict d) = Inr kw"
  shows "dom kw = {PStr ''primary_ip_address'', PStr ''device_name'', PStr ''vlan_id'',
                   PStr ''mac_address''}"
  using assms
  by (auto simp: interface_kwargs_def params_to_dict_def Let_def if_keys_def
      split: option.splits if_splits dest!: params_loop_dom)

lemma config_kwargs_dom:
  assumes "config_kwargs env (PDict d) = Inr kw"
  shows "dom kw \<subseteq> {PStr ''vrid'', PStr ''version'', PStr ''admin_state'', PStr ''priority'',
                   PStr ''advertisement_interval'', PStr ''preempt_mode'',
                   PStr ''preempt_delay'', PStr ''statistics_interval'',
                   PStr ''use_virtual_mac'', PStr ''ip_addresses''}"
  using assms
  by (auto simp: config_kwargs_def params_to_dict_def Let_def config_keys_def
      split: option.splits if_splits dest!: params_loop_dom)

lemma build_interface_known:
  "build_interface env (PDict (known_params d)) = build_interface env (PDict d)
   \<or> (build_interface env (PDict d) =
        Inl (RPCError (''parameters are invalid, '' @ py_str env (PDict d)))
      \<and> build_interface env (PDict (known_params d)) =
        Inl (RPCError (''parameters are invalid, '' @ py_str env (PDict (known_params d)))))"
  by (simp add: build_interface_def interface_kwargs_known split: sum.splits)

lemma build_config_known:
  "build_config env (PDict (known_params d)) = build_config env (PDict d)
   \<or> (build_config env (PDict d) =
        Inl (RPCError (''parameters are invalid, '' @ py_str env (PDict d)))
      \<and> build_config env (PDict (known_params d)) =
        Inl (RPCError (''parameters are invalid, '' @ py_str env (PDict (known_params d)))))"
  by (simp add: build_config_def config_kwargs_known contexts_known
      del: py_get.simps split: sum.splits)

lemma rpc_config_known:
  assumes "getitem0 params = Inr (PDict d)"
    and "getitem0 params' = Inr (PDict (known_params d))"
  shows "rpc_config env s msgid params = rpc_config env s msgid params'
       \<or> (rpc_config env s msgid params =
            (Inl (RPCError (''parameters are invalid, '' @ py_str env (PDict d))), s)
          \<and> rpc_config env s msgid params' =
            (Inl (RPCError (''parameters are invalid, '' @ py_str env (PDict (known_params d)))), s))"
  using build_interface_known [of env d] build_config_known [of env d] assms
  by (auto simp: rpc_config_def split: sum.splits)

lemma sample_config_run:
  "rpc_config sample_env (sample_manager []) (PInt 5)
     (PList [PDict [(PStr ''ip_address'', PStr ''10.0.0.1''), (PStr ''ifname'', PStr ''eth0''),
                    (PStr ''vrid'', PInt 1), (PStr ''ip_addr'', PStr ''10.0.0.100'')]]) =
   (Inr (PList [PInt 1, PInt 100, PStr ''10.0.0.100'']),
    (sample_manager [])
      \<lparr>api_calls := [CallConfig
           \<lparr>mac_address = PStr ''00:00:00:00:00:00'', primary_ip_address = PStr ''10.0.0.1'',
            vlan_id = PNone, device_name = PStr ''eth0''\<rparr>
           (config (sample_instance ''VRRP-Router-1'' 1 ''10.0.0.100''))],
       registry := [sample_instance ''VRRP-Router-1'' 1 ''10.0.0.100'']\<rparr>)"
  by (simp add: rpc_config_def build_interface_def interface_kwargs_def build_config_def
      config_kwargs_def params_to_dict_def if_keys_def config_keys_def primary_str_def
      sample_env_def sample_manager_def sample_instance_def sample_interface_def
      sample_config_def sample_address_def sample_create_def kw_default_def show_int_def Let_def
      show_nat.simps)

section \<open>The dispatcher boundary\<close>

text \<open>
  C1. The claim: every failure of a handler is caught at the dispatcher and becomes the
  error string of the response, and the loop never ends on it, also for a
  \<open>vrrp_shutdown\<close> or \<open>vrrp_config_change\<close> whose parameter object has no \<open>vrid\<close> or a
  \<open>vrid\<close> that is not an integer. The code at these requests: no instance has the
  id, \<open>'vrid %d is not found' % (vrid)\<close> raises \<open>TypeError\<close> before the \<open>RPCError\<close>
  exists, \<open>except RPCError\<close> lets it pass, no response is sent, and the thread ends with
  the rest of the queue unanswered, whatever the registry holds.
\<close>

theorem missing_vrid_ends_dispatcher:
  "rpc_request_loop_thread env s ((p, msgid, ''vrrp_shutdown'', PList [PDict []]) # queue) =
     (Some TypeError, s\<lparr>api_calls := api_calls s @ [CallList]\<rparr>)
 \<and> rpc_request_loop_thread env s
       ((p, msgid, ''vrrp_config_change'', PList [PDict [(PStr ''vrid'', PStr ''one'')]]) # queue) =
     (Some TypeError, s\<lparr>api_calls := api_calls s @ [CallList]\<rparr>)"
  by (simp add: handle_request_def rpc_shutdown_def rpc_config_change_def lookup_instance_def
      lookup_loop_PNone lookup_loop_PStr not_found_def)

text \<open>
  C8. A command whose method name is none of \<open>vrrp_config\<close>, \<open>vrrp_list\<close>,
  \<open>vrrp_config_change\<close>, \<open>vrrp_shutdown\<close> gets the error \<open>Unknown method\<close> followed by
  the name and a null result; the manager is as before, so no handler ran and the
  registry was not called. The round of the loop sends exactly this response.
\<close>

theorem unknown_method_error:
  assumes "target_method \<noteq> ''vrrp_config''" and "target_method \<noteq> ''vrrp_list''"
    and "target_method \<noteq> ''vrrp_config_change''" and "target_method \<noteq> ''vrrp_shutdown''"
  shows "handle_request env s msgid target_method params =
           (Inr (PStr (''Unknown method '' @ target_method), PNone), s)
       \<and> rpc_request_step env s (p, msgid, target_method, params) =
           (case send_response env p msgid (PStr (''Unknown method '' @ target_method)) PNone of
              Some e \<Rightarrow> (Some e, s)
            | None \<Rightarrow>
                (None, s\<lparr>sent := sent s @
                   [(p, Response msgid (PStr (''Unknown method '' @ target_method)) PNone)]\<rparr>))"
  using assms by (simp add: handle_request_def split: option.splits)

theorem unknown_method_error_witness:
  "rpc_request_step sample_env (sample_manager []) (1, PInt 5, ''vrrp_delete'', PList []) =
     (None, (sample_manager [])\<lparr>sent :=
        [(1, Response (PInt 5) (PStr ''Unknown method vrrp_delete'') PNone)]\<rparr>)"
  using unknown_method_error [of "''vrrp_delete''" sample_env "sample_manager []" "PInt 5"
      "PList []" 1]
  by (simp add: sample_env_def sample_manager_def)

section \<open>vrrp\_config\<close>

text \<open>
  C3. A \<open>vrrp_config\<close> request whose first positional parameter is a map without the key
  \<open>ip_address\<close> or without the key \<open>ifname\<close> fails with a missing-parameter error: the
  response has an error string and a null result, and the manager is as before, so
  \<open>vrrp_api.vrrp_config\<close> was not called.
\<close>

theorem config_missing_interface_keys:
  assumes "getitem0 params = Inr (PDict d)"
    and "PStr ''ip_address'' \<notin> fst ` set d \<or> PStr ''ifname'' \<notin> fst ` set d"
  shows "handle_request env s msgid ''vrrp_config'' params =
           (Inr (PStr (if PStr ''ip_address'' \<notin> fst ` set d
                       then ''ip_addr parameter is missing''
                       else ''ifname parameter is missing''), PNone), s)"
proof (cases "PStr ''ip_address'' \<in> fst ` set d")
  case True
  with assms(2) have "PStr ''ifname'' \<notin> fst ` set d" by simp
  with True have "build_interface env (PDict d) = Inl (RPCError ''ifname parameter is missing'')"
    by (rule build_interface_no_ifname)
  with assms(1) True show ?thesis
    by (simp add: handle_request_def rpc_config_def)
next
  case False
  then have "build_interface env (PDict d) = Inl (RPCError ''ip_addr parameter is missing'')"
    by (rule build_interface_no_ip)
  with assms(1) False show ?thesis
    by (simp add: handle_request_def rpc_config_def)
qed

theorem config_missing_interface_keys_witness:
  "handle_request sample_env (sample_manager []) (PInt 5) ''vrrp_config''
     (PList [PDict [(PStr ''ip_address'', PStr ''10.0.0.1''), (PStr ''vrid'', PInt 1)]]) =
     (Inr (PStr ''ifname parameter is missing'', PNone), sample_manager [])"
  using config_missing_interface_keys [of
      "PList [PDict [(PStr ''ip_address'', PStr ''10.0.0.1''), (PStr ''vrid'', PInt 1)]]"
      "[(PStr ''ip_address'', PStr ''10.0.0.1''), (PStr ''vrid'', PInt 1)]"
      sample_env "sample_manager []" "PInt 5"]
  by simp

text \<open>
  C2. A \<open>vrrp_config\<close> request returns a value exactly when its parameter object gives
  an interface descriptor and a configuration object, the registry accepts the two,
  and the first address of the configuration in its reply has a canonical form. The
  value is then the list of the virtual-router id and the priority of that
  configuration and the canonical form of its first address; the registry was called
  once, with the descriptor and the configuration.
\<close>

theorem config_success_result:
  "rpc_config env s msgid params = (Inr r, s') \<longleftrightarrow>
     (\<exists>param_dict iface cfg config_result a.
        getitem0 params = Inr param_dict \<and>
        build_interface env param_dict = Inr iface \<and>
        build_config env param_dict = Inr cfg \<and>
        vrrp_api_config env (registry s) iface cfg = Inr (config_result, registry s') \<and>
        s' = s\<lparr>api_calls := api_calls s @ [CallConfig iface cfg], registry := registry s'\<rparr> \<and>
        ip_addresses (config config_result) \<noteq> [] \<and>
        IPAddress_str env (hd (ip_addresses (config config_result))) = Inr a \<and>
        r = PList [PInt (vrid (config config_result)), priority (config config_result), PStr a])"
  by (auto simp: rpc_config_def primary_str_def Let_def
      split: sum.splits prod.splits list.splits)

theorem config_success_result_witness:
  "\<exists>config_result.
     vrrp_api_config sample_env [] 
       \<lparr>mac_address = PStr ''00:00:00:00:00:00'', primary_ip_address = PStr ''10.0.0.1'',
        vlan_id = PNone, device_name = PStr ''eth0''\<rparr>
       (config (sample_instance ''VRRP-Router-1'' 1 ''10.0.0.100'')) =
       Inr (config_result, [sample_instance ''VRRP-Router-1'' 1 ''10.0.0.100''])
     \<and> rpc_config sample_env (sample_manager []) (PInt 5)
         (PList [PDict [(PStr ''ip_address'', PStr ''10.0.0.1''), (PStr ''ifname'', PStr ''eth0''),
                        (PStr ''vrid'', PInt 1), (PStr ''ip_addr'', PStr ''10.0.0.100'')]]) =
       (Inr (PList [PInt (vrid (config config_result)), priority (config config_result),
                    PStr ''10.0.0.100'']),
        (sample_manager [])
          \<lparr>api_calls := [CallConfig
               \<lparr>mac_address = PStr ''00:00:00:00:00:00'', primary_ip_address = PStr ''10.0.0.1'',
                vlan_id = PNone, device_name = PStr ''eth0''\<rparr>
               (config (sample_instance ''VRRP-Router-1'' 1 ''10.0.0.100''))],
           registry := [sample_instance ''VRRP-Router-1'' 1 ''10.0.0.100'']\<rparr>)"
  using config_success_result [THEN iffD1, OF sample_config_run] sample_config_run
  by (auto simp: sample_manager_def)

text \<open>
  C9. Entries of the parameter object of \<open>vrrp_config\<close> under other keys than the two
  interface keys, the nine configuration keys and \<open>contexts\<close> are dropped. The keyword
  arguments of both constructors are those of the object without such entries, and name
  parameters of the constructors only. The request does what the request without the
  entries does, with the same calls into the registry and the same value or error; only
  the invalid-parameters message, which quotes the whole object, shows them.
\<close>

theorem unknown_keys_discarded:
  assumes "getitem0 params = Inr (PDict d)"
    and "getitem0 params' = Inr (PDict (known_params d))"
  shows "interface_kwargs env (PDict d) = interface_kwargs env (PDict (known_params d))
       \<and> config_kwargs env (PDict d) = config_kwargs env (PDict (known_params d))
       \<and> (\<forall>kw. interface_kwargs env (PDict d) = Inr kw \<longrightarrow>
              dom kw = {PStr ''primary_ip_address'', PStr ''device_name'', PStr ''vlan_id'',
                        PStr ''mac_address''})
       \<and> (\<forall>kw. config_kwargs env (PDict d) = Inr kw \<longrightarrow>
              dom kw \<subseteq> {PStr ''vrid'', PStr ''version'', PStr ''admin_state'', PStr ''priority'',
                        PStr ''advertisement_interval'', PStr ''preempt_mode'',
                        PStr ''preempt_delay'', PStr ''statistics_interval'',
                        PStr ''use_virtual_mac'', PStr ''ip_addresses''})
       \<and> (rpc_config env s msgid params = rpc_config env s msgid params'
          \<or> (rpc_config env s msgid params =
                (Inl (RPCError (''parameters are invalid, '' @ py_str env (PDict d))), s)
             \<and> rpc_config env s msgid params' =
                (Inl (RPCError (''parameters are invalid, '' @
                   py_str env (PDict (known_params d)))), s)))"
proof -
  have "rpc_config env s msgid params = rpc_config env s msgid params'
      \<or> (rpc_config env s msgid params =
            (Inl (RPCError (''parameters are invalid, '' @ py_str env (PDict d))), s)
         \<and> rpc_config env s msgid params' =
            (Inl (RPCError (''parameters are invalid, '' @
               py_str env (PDict (known_params d)))), s))"
    using assms by (rule rpc_config_known)
  moreover have "\<forall>kw. interface_kwargs env (PDict d) = Inr kw \<longrightarrow>
              dom kw = {PStr ''primary_ip_address'', PStr ''device_name'', PStr ''vlan_id'',
                        PStr ''mac_address''}"
    by (intro allI impI) (rule interface_kwargs_dom)
  moreover have "\<forall>kw. config_kwargs env (PDict d) = Inr kw \<longrightarrow>
              dom kw \<subseteq> {PStr ''vrid'', PStr ''version'', PStr ''admin_state'', PStr ''priority'',
                        PStr ''advertisement_interval'', PStr ''preempt_mode'',
                        PStr ''preempt_delay'', PStr ''statistics_interval'',
                        PStr ''use_virtual_mac'', PStr ''ip_addresses''}"
    by (intro allI impI) (rule config_kwargs_dom)
  ultimately show ?thesis
    by (simp only: interface_kwargs_known config_kwargs_known simp_thms)
qed

theorem unknown_keys_discarded_witness:
  "rpc_config sample_env (sample_manager []) (PInt 5)
     (PList [PDict [(PStr ''color'', PStr ''red''), (PStr ''ip_address'', PStr ''10.0.0.1''),
                    (PStr ''ifname'', PStr ''eth0''), (PStr ''vrid'', PInt 1),
                    (PStr ''ip_addr'', PStr ''10.0.0.100''), (PInt 7, PList [])]]) =
   (Inr (PList [PInt 1, PInt 100, PStr ''10.0.0.100'']),
    (sample_manager [])
      \<lparr>api_calls := [CallConfig
           \<lparr>mac_address = PStr ''00:00:00:00:00:00'', primary_ip_address = PStr ''10.0.0.1'',
            vlan_id = PNone, device_name = PStr ''eth0''\<rparr>
           (config (sample_instance ''VRRP-Router-1'' 1 ''10.0.0.100''))],
       registry := [sample_instance ''VRRP-Router-1'' 1 ''10.0.0.100'']\<rparr>)"
proof -
  have full: "getitem0
      (PList [PDict [(PStr ''color'', PStr ''red''), (PStr ''ip_address'', PStr ''10.0.0.1''),
                     (PStr ''ifname'', PStr ''eth0''), (PStr ''vrid'', PInt 1),
                     (PStr ''ip_addr'', PStr ''10.0.0.100''), (PInt 7, PList [])]]) =
      Inr (PDict [(PStr ''color'', PStr ''red''), (PStr ''ip_address'', PStr ''10.0.0.1''),
                  (PStr ''ifname'', PStr ''eth0''), (PStr ''vrid'', PInt 1),
                  (PStr ''ip_addr'', PStr ''10.0.0.100''), (PInt 7, PList [])])"
    by simp
  have cut: "getitem0
      (PList [PDict [(PStr ''ip_address'', PStr ''10.0.0.1''), (PStr ''ifname'', PStr ''eth0''),
                     (PStr ''vrid'', PInt 1), (PStr ''ip_addr'', PStr ''10.0.0.100'')]]) =
      Inr (PDict (known_params
                 [(PStr ''color'', PStr ''red''), (PStr ''ip_address'', PStr ''10.0.0.1''),
                  (PStr ''ifname'', PStr ''eth0''), (PStr ''vrid'', PInt 1),
                  (PStr ''ip_addr'', PStr ''10.0.0.100''), (PInt 7, PList [])]))"
    by (simp add: known_params_def recognized_keys_def if_keys_def config_keys_def)
  from unknown_keys_discarded [OF full cut, of sample_env "sample_manager []" "PInt 5"]
    sample_config_run
  show ?thesis by auto
qed

section \<open>vrrp\_config\_change and vrrp\_shutdown\<close>

text \<open>
  C5. The claim: when the virtual-router id resolves to an instance, both
  \<open>vrrp_config_change\<close> and \<open>vrrp_shutdown\<close> return an empty result. The result of
  \<open>_shutdown\<close> is not empty: it is a list of one element, the empty map.
\<close>

theorem shutdown_result_counterexample:
  "fst (handle_request sample_env
          (sample_manager [sample_instance ''VRRP-Router-1'' 1 ''10.0.0.100''])
          (PInt 5) ''vrrp_shutdown'' (PList [PDict [(PStr ''vrid'', PInt 1)]])) =
     Inr (PNone, PList [PDict []])
   \<and> \<not> empty_value (PList [PDict []])"
  by (simp add: handle_request_def rpc_shutdown_def lookup_instance_def sample_env_def
      sample_manager_def sample_instance_def empty_value_def)

text \<open>
  C5, as the code has it. When \<open>_lookup_instance\<close> finds a name for the id of the
  parameter object, and the name is not the empty string, the response has no error;
  the result of \<open>vrrp_config_change\<close> is the empty map, and the result of
  \<open>vrrp_shutdown\<close> is the list whose one element is the empty map.
\<close>

theorem resolved_vrid_results:
  assumes "getitem0 params = Inr (PDict d)"
    and "map_of d (PStr ''vrid'') = Some v"
    and "fst (lookup_instance env s v) = Some name"
    and "name \<noteq> []"
  shows "fst (handle_request env s msgid ''vrrp_config_change'' params) = Inr (PNone, PDict [])
       \<and> empty_value (PDict [])
       \<and> fst (handle_request env s msgid ''vrrp_shutdown'' params) = Inr (PNone, PList [PDict []])"
  using assms
  by (simp add: handle_request_def rpc_shutdown_def rpc_config_change_def lookup_instance_def
      empty_value_def)

theorem resolved_vrid_results_witness:
  "fst (handle_request sample_env
          (sample_manager [sample_instance ''VRRP-Router-1'' 1 ''10.0.0.100''])
          (PInt 5) ''vrrp_config_change'' (PList [PDict [(PStr ''vrid'', PInt 1)]])) =
     Inr (PNone, PDict [])
   \<and> fst (handle_request sample_env
          (sample_manager [sample_instance ''VRRP-Router-1'' 1 ''10.0.0.100''])
          (PInt 5) ''vrrp_shutdown'' (PList [PDict [(PStr ''vrid'', PInt 1)]])) =
     Inr (PNone, PList [PDict []])"
  using resolved_vrid_results [where params = "PList [PDict [(PStr ''vrid'', PInt 1)]]"
      and d = "[(PStr ''vrid'', PInt 1)]" and v = "PInt 1" and env = sample_env
      and s = "sample_manager [sample_instance ''VRRP-Router-1'' 1 ''10.0.0.100'']"
      and name = "''VRRP-Router-1''" and msgid = "PInt 5"]
  by (simp add: lookup_instance_def sample_env_def sample_manager_def sample_instance_def)

text \<open>
  C6. A \<open>vrrp_config_change\<close> or \<open>vrrp_shutdown\<close> request with an integer id \<open>v\<close>
  that no reported instance has gets the error \<open>vrid v is not found\<close> and a null
  result. The registry is as before: the only call was the one that lists the instances.
\<close>

theorem unknown_vrid_not_found:
  assumes "getitem0 params = Inr (PDict d)"
    and "map_of d (PStr ''vrid'') = Some (PInt v)"
    and "list_all (\<lambda>i. vrid (config i) \<noteq> v) (vrrp_api_list env (registry s))"
    and "target_method = ''vrrp_config_change'' \<or> target_method = ''vrrp_shutdown''"
  shows "handle_request env s msgid target_method params =
           (Inr (PStr (''vrid '' @ show_int v @ '' is not found''), PNone),
            s\<lparr>api_calls := api_calls s @ [CallList]\<rparr>)"
proof -
  have "lookup_loop (vrrp_api_list env (registry s)) (PInt v) = None"
    using assms(3) by (rule lookup_loop_no_match)
  with assms(1,2,4) show ?thesis
    by (auto simp: handle_request_def rpc_shutdown_def rpc_config_change_def
        lookup_instance_def not_found_def)
qed

theorem unknown_vrid_not_found_witness:
  "handle_request sample_env (sample_manager [sample_instance ''VRRP-Router-1'' 1 ''10.0.0.100''])
     (PInt 5) ''vrrp_config_change'' (PList [PDict [(PStr ''vrid'', PInt 99)]]) =
     (Inr (PStr ''vrid 99 is not found'', PNone),
      (sample_manager [sample_instance ''VRRP-Router-1'' 1 ''10.0.0.100''])
        \<lparr>api_calls := [CallList]\<rparr>)"
  using unknown_vrid_not_found [where params = "PList [PDict [(PStr ''vrid'', PInt 99)]]"
      and d = "[(PStr ''vrid'', PInt 99)]" and v = 99 and env = sample_env
      and s = "sample_manager [sample_instance ''VRRP-Router-1'' 1 ''10.0.0.100'']"
      and target_method = "''vrrp_config_change''" and msgid = "PInt 5"]
  by (simp add: sample_env_def sample_manager_def sample_instance_def show_int_def
      show_nat.simps)

text \<open>
  C10. When several reported instances have the id of the request, the first of them in
  the order of the list is the one acted on: \<open>_lookup_instance\<close> yields its name, and
  the registry gets one call, a shutdown or a change of the instance of that name. The
  instances behind it are not looked at; the name is taken to be a non-empty string.
\<close>

theorem first_match_is_target:
  assumes "getitem0 params = Inr (PDict d)"
    and "map_of d (PStr ''vrid'') = Some (PInt v)"
    and "vrrp_api_list env (registry s) = pre @ i # post"
    and "list_all (\<lambda>j. vrid (config j) \<noteq> v) pre"
    and "vrid (config i) = v"
    and "instance_name i \<noteq> []"
  shows "fst (lookup_instance env s (PInt v)) = Some (instance_name i)
       \<and> snd (rpc_shutdown env s msgid params) =
           s\<lparr>registry := vrrp_api_shutdown env (registry s) (instance_name i),
              api_calls := api_calls s @ [CallList, CallShutdown (instance_name i)]\<rparr>
       \<and> snd (rpc_config_change env s msgid params) =
           s\<lparr>registry := vrrp_api_config_change env (registry s) (instance_name i)
                 (case map_of d (PStr ''priority'') of None \<Rightarrow> PNone | Some x \<Rightarrow> x)
                 (case map_of d (PStr ''advertisement_interval'') of
                    None \<Rightarrow> PNone | Some x \<Rightarrow> x),
              api_calls := api_calls s @ [CallList, CallConfigChange (instance_name i)
                 (case map_of d (PStr ''priority'') of None \<Rightarrow> PNone | Some x \<Rightarrow> x)
                 (case map_of d (PStr ''advertisement_interval'') of
                    None \<Rightarrow> PNone | Some x \<Rightarrow> x)]\<rparr>"
proof -
  have "lookup_loop (vrrp_api_list env (registry s)) (PInt v) = Some (instance_name i)"
    unfolding assms(3) using assms(4,5) by (rule lookup_loop_first)
  with assms(1,2,6) show ?thesis
    by (simp add: rpc_shutdown_def rpc_config_change_def lookup_instance_def)
qed

theorem first_match_is_target_witness:
  "snd (rpc_shutdown sample_env
          (sample_manager [sample_instance ''a'' 2 ''10.0.0.102'',
                           sample_instance ''b'' 1 ''10.0.0.100'',
                           sample_instance ''c'' 1 ''10.0.0.101''])
          (PInt 5) (PList [PDict [(PStr ''vrid'', PInt 1)]])) =
     (sample_manager [sample_instance ''a'' 2 ''10.0.0.102'',
                      sample_instance ''b'' 1 ''10.0.0.100'',
                      sample_instance ''c'' 1 ''10.0.0.101''])
       \<lparr>registry := [sample_instance ''a'' 2 ''10.0.0.102'',
                     sample_instance ''c'' 1 ''10.0.0.101''],
        api_calls := [CallList, CallShutdown ''b'']\<rparr>"
  using first_match_is_target [where params = "PList [PDict [(PStr ''vrid'', PInt 1)]]"
      and d = "[(PStr ''vrid'', PInt 1)]" and v = 1 and env = sample_env
      and s = "sample_manager [sample_instance ''a'' 2 ''10.0.0.102'',
                               sample_instance ''b'' 1 ''10.0.0.100'',
                               sample_instance ''c'' 1 ''10.0.0.101'']"
      and pre = "[sample_instance ''a'' 2 ''10.0.0.102'']"
      and i = "sample_instance ''b'' 1 ''10.0.0.100''"
      and post = "[sample_instance ''c'' 1 ''10.0.0.101'']" and msgid = "PInt 5"]
  by (simp add: sample_env_def sample_manager_def sample_instance_def)

section \<open>vrrp\_list\<close>

text \<open>
  C7. Whatever the parameters are, a \<open>vrrp_list\<close> request returns one record per
  instance the registry reports, in the order of the report, with the name, the
  virtual-router id, the version, the advertisement interval, the priority and the
  canonical form of the first address; every reported instance is taken to have a first
  address with a canonical form \<open>canon i\<close>.
\<close>

theorem list_reports_every_instance:
  assumes "list_all (\<lambda>i. ip_addresses (config i) \<noteq> [] \<and>
              IPAddress_str env (hd (ip_addresses (config i))) = Inr (canon i))
            (vrrp_api_list env (registry s))"
  shows "handle_request env s msgid ''vrrp_list'' params =
           (Inr (PNone,
                 PList (map (\<lambda>i. PDict
                    [(PStr ''instance_name'', PStr (instance_name i)),
                     (PStr ''vrid'', PInt (vrid (config i))),
                     (PStr ''version'', version (config i)),
                     (PStr ''advertisement_interval'', advertisement_interval (config i)),
                     (PStr ''priority'', priority (config i)),
                     (PStr ''virtual_ip_address'', PStr (canon i))])
                  (vrrp_api_list env (registry s)))),
            s\<lparr>api_calls := api_calls s @ [CallList]\<rparr>)"
proof -
  have "list_all (\<lambda>i. primary_str env (config i) = Inr (canon i))
          (vrrp_api_list env (registry s))"
    using assms by (simp add: list_all_iff primary_str_hd)
  then have "list_loop env (vrrp_api_list env (registry s)) [] =
      Inr ([] @ map (\<lambda>i. info_dict i (canon i)) (vrrp_api_list env (registry s)))"
    by (rule list_loop_map)
  then show ?thesis
    by (simp add: handle_request_def rpc_list_def info_dict_def)
qed

theorem list_reports_every_instance_witness:
  "handle_request sample_env
     (sample_manager [sample_instance ''b'' 2 ''10.0.0.101'', sample_instance ''a'' 1 ''10.0.0.100''])
     (PInt 5) ''vrrp_list'' (PStr ''anything'') =
   (Inr (PNone,
      PList [PDict [(PStr ''instance_name'', PStr ''b''), (PStr ''vrid'', PInt 2),
                    (PStr ''version'', PInt 3), (PStr ''advertisement_interval'', PInt 1),
                    (PStr ''priority'', PInt 100),
                    (PStr ''virtual_ip_address'', PStr ''10.0.0.101'')],
             PDict [(PStr ''instance_name'', PStr ''a''), (PStr ''vrid'', PInt 1),
                    (PStr ''version'', PInt 3), (PStr ''advertisement_interval'', PInt 1),
                    (PStr ''priority'', PInt 100),
                    (PStr ''virtual_ip_address'', PStr ''10.0.0.100'')]]),
    (sample_manager [sample_instance ''b'' 2 ''10.0.0.101'', sample_instance ''a'' 1 ''10.0.0.100''])
      \<lparr>api_calls := [CallList]\<rparr>)"
  using list_reports_every_instance [where env = sample_env
      and canon = "\<lambda>i. case hd (ip_addresses (config i)) of PStr a \<Rightarrow> a | other \<Rightarrow> []"
      and s = "sample_manager [sample_instance ''b'' 2 ''10.0.0.101'',
                               sample_instance ''a'' 1 ''10.0.0.100'']"
      and msgid = "PInt 5" and params = "PStr ''anything''"]
  by (simp add: sample_env_def sample_manager_def sample_instance_def sample_address_def)

section \<open>The broadcaster\<close>

text \<open>
  C4. The claim: every peer of the peer list gets the notification, and a send that
  fails for one peer neither keeps it from the others nor crashes the broadcaster. With
  the peers 1, 2, 3 and the socket of peer 2 broken, peer 1 gets the notification, the
  exception of peer 2 leaves the handler, and peer 3 gets nothing.
\<close>

theorem broadcast_counterexample:
  "vrrp_state_changed_handler sample_env (sample_manager [])
     \<lparr>ev_instance_name = ''VRRP-Router-1'', old_state = PStr ''Backup'',
      new_state = PStr ''Master'',
      ev_config = config (sample_instance ''VRRP-Router-1'' 1 ''10.0.0.100'')\<rparr> =
   (Some (ExternalError ''socket.error''),
    (sample_manager [])\<lparr>sent :=
       [(1, Notification ''notify_status''
              (PList [PDict [(PStr ''vrid'', PInt 1), (PStr ''old_state'', PStr ''Backup''),
                             (PStr ''new_state'', PStr ''Master'')]]))]\<rparr>)"
  by (simp add: vrrp_state_changed_handler_def notify_params_def sample_env_def
      sample_manager_def sample_instance_def)

text \<open>
  C4, as the code has it. The payload holds the virtual-router id, the old and the new
  state. The peers get it in the order of the peer list, up to the first peer whose send
  raises; that exception leaves the handler and the peers behind it get nothing. When
  no send raises, every peer of the list gets the notification.
\<close>

theorem broadcast_stops_at_first_failure:
  "vrrp_state_changed_handler env s ev =
     ((case dropWhile (\<lambda>p. send_notification env p ''notify_status''
                (PList [PDict [(PStr ''vrid'', PInt (vrid (ev_config ev))),
                               (PStr ''old_state'', old_state ev),
                               (PStr ''new_state'', new_state ev)]]) = None) (peers s) of
         [] \<Rightarrow> None
       | p # rest \<Rightarrow> send_notification env p ''notify_status''
                (PList [PDict [(PStr ''vrid'', PInt (vrid (ev_config ev))),
                               (PStr ''old_state'', old_state ev),
                               (PStr ''new_state'', new_state ev)]])),
      s\<lparr>sent := sent s @
           map (\<lambda>p. (p, Notification ''notify_status''
                (PList [PDict [(PStr ''vrid'', PInt (vrid (ev_config ev))),
                               (PStr ''old_state'', old_state ev),
                               (PStr ''new_state'', new_state ev)]])))
             (takeWhile (\<lambda>p. send_notification env p ''notify_status''
                (PList [PDict [(PStr ''vrid'', PInt (vrid (ev_config ev))),
                               (PStr ''old_state'', old_state ev),
                               (PStr ''new_state'', new_state ev)]]) = None) (peers s))\<rparr>)"
  by (simp add: vrrp_state_changed_handler_def notify_params_def notify_loop_prefix)

theorem broadcast_stops_at_first_failure_witness:
  "vrrp_state_changed_handler sample_env ((sample_manager [])\<lparr>peers := [1, 3]\<rparr>)
     \<lparr>ev_instance_name = ''VRRP-Router-1'', old_state = PStr ''Backup'',
      new_state = PStr ''Master'',
      ev_config = config (sample_instance ''VRRP-Router-1'' 1 ''10.0.0.100'')\<rparr> =
   (None,
    (sample_manager [])\<lparr>peers := [1, 3], sent :=
       [(1, Notification ''notify_status''
              (PList [PDict [(PStr ''vrid'', PInt 1), (PStr ''old_state'', PStr ''Backup''),
                             (PStr ''new_state'', PStr ''Master'')]])),
        (3, Notification ''notify_status''
              (PList [PDict [(PStr ''vrid'', PInt 1), (PStr ''old_state'', PStr ''Backup''),
                             (PStr ''new_state'', PStr ''Master'')]]))]\<rparr>)"
  using broadcast_stops_at_first_failure [of sample_env
      "(sample_manager [])\<lparr>peers := [1, 3]\<rparr>"
      "\<lparr>ev_instance_name = ''VRRP-Router-1'', old_state = PStr ''Backup'',
        new_state = PStr ''Master'',
        ev_config = config (sample_instance ''VRRP-Router-1'' 1 ''10.0.0.100'')\<rparr>"]
  by (simp add: sample_env_def sample_manager_def sample_instance_def)

end
